theory Spec2Isabelle
  imports Main "HOL-Library.Sublist"
begin

section \<open>Python values, dictionaries and exceptions\<close>

text \<open>
  The values the client handles: the arguments a caller passes and everything
  \<^verbatim>\<open>r.json()\<close> can decode (\<^verbatim>\<open>None\<close>, booleans, integers, strings, lists and
  dictionaries with string keys). A dictionary is an association list in insertion order.
  JSON numbers with a fraction are left out: the client never computes with a number.
\<close>

datatype pyval =
    PNone
  | PBool bool
  | PInt int
  | PStr string
  | PList "pyval list"
  | PDict "(string \<times> pyval) list"

type_synonym dict = "(string \<times> pyval) list"

text \<open>
  What \<^verbatim>\<open>r.json()\<close> can raise besides \<^verbatim>\<open>json.decoder.JSONDecodeError\<close>: the parser of
  the standard library raises \<^verbatim>\<open>RecursionError\<close> on deeply nested input and
  \<^verbatim>\<open>ValueError\<close> on an integer literal beyond the digit limit, and requests 2.22.0 (the
  version \<^verbatim>\<open>setup.py\<close> pins) decodes with simplejson where that is installed, whose
  \<^verbatim>\<open>JSONDecodeError\<close> is a class of its own.
\<close>

datatype json_exn = RecursionError | ValueError | Simplejson_JSONDecodeError

text \<open>
  The exceptions of \<^verbatim>\<open>pyourls3.exceptions\<close>, each with the arguments it is constructed
  from in \<^verbatim>\<open>client.py\<close>, and the built-in exceptions that subscripting, attribute access
  and indexing raise. \<^verbatim>\<open>LocationParseError\<close> is what \<^verbatim>\<open>urllib3.util.parse_url\<close> raises;
  \<^verbatim>\<open>Propagated\<close> is an exception of \<^verbatim>\<open>r.json()\<close> that no \<^verbatim>\<open>except\<close> clause of the
  client catches and that reaches the caller as it is.
\<close>

datatype error =
    Pyourls3ParamError string
  | Pyourls3HTTPError int string
  | Pyourls3APIError pyval pyval
  | Pyourls3URLAlreadyExistsError pyval
  | KeyError string
  | IndexError
  | TypeError
  | AttributeError
  | LocationParseError
  | Propagated json_exn

text \<open>The exceptions the library classifies, as opposed to the built-in ones.\<close>

fun classified :: "error \<Rightarrow> bool" where
  "classified (Pyourls3ParamError _) = True"
| "classified (Pyourls3HTTPError _ _) = True"
| "classified (Pyourls3APIError _ _) = True"
| "classified (Pyourls3URLAlreadyExistsError _) = True"
| "classified _ = False"

text \<open>Python truth value testing, as used by \<^verbatim>\<open>if not url\<close>.\<close>

fun truthy :: "pyval \<Rightarrow> bool" where
  "truthy PNone = False"
| "truthy (PBool b) = b"
| "truthy (PInt n) = (n \<noteq> 0)"
| "truthy (PStr s) = (s \<noteq> [])"
| "truthy (PList xs) = (xs \<noteq> [])"
| "truthy (PDict d) = (d \<noteq> [])"

text \<open>\<^verbatim>\<open>type(x) is str\<close>.\<close>

fun is_str :: "pyval \<Rightarrow> bool" where
  "is_str (PStr _) = True"
| "is_str _ = False"

text \<open>
  \<^verbatim>\<open>d[k] = v\<close>: an existing key keeps its position, a new key goes to the end.
\<close>

fun dict_set :: "string \<Rightarrow> pyval \<Rightarrow> dict \<Rightarrow> dict" where
  "dict_set k v [] = [(k, v)]"
| "dict_set k v ((k', v') # d) =
     (if k = k' then (k, v) # d else (k', v') # dict_set k v d)"

text \<open>\<^verbatim>\<open>{**a, **b}\<close>: the entries of \<^verbatim>\<open>a\<close>, then those of \<^verbatim>\<open>b\<close> stored one by one.\<close>

definition dict_merge :: "dict \<Rightarrow> dict \<Rightarrow> dict" where
  "dict_merge a b = fold (\<lambda>(k, v). dict_set k v) b a"

text \<open>
  \<^verbatim>\<open>j[k]\<close> with a string key: a dictionary without the key raises \<^verbatim>\<open>KeyError\<close>; every
  other decoded value (list, string, number, boolean, \<^verbatim>\<open>None\<close>) raises \<^verbatim>\<open>TypeError\<close>.
\<close>

fun getitem :: "pyval \<Rightarrow> string \<Rightarrow> error + pyval" where
  "getitem (PDict d) k = (case map_of d k of None \<Rightarrow> Inl (KeyError k) | Some v \<Rightarrow> Inr v)"
| "getitem _ k = Inl TypeError"

subsection \<open>\<^verbatim>\<open>str.split\<close> and list indexing\<close>

text \<open>
  \<^verbatim>\<open>s.split(sep)\<close> for a non-empty separator: the string is scanned from the left, every
  occurrence of the separator closes the current piece and the scan goes on behind it.
  \<^verbatim>\<open>acc\<close> is the piece read so far. (Python raises \<^verbatim>\<open>ValueError\<close> for an empty
  separator; the client only ever splits on \<^verbatim>\<open>": "\<close>.)
\<close>

function split_from :: "string \<Rightarrow> string \<Rightarrow> string \<Rightarrow> string list" where
  "split_from sep acc [] = [acc]"
| "split_from sep acc (c # cs) =
     (if sep \<noteq> [] \<and> prefix sep (c # cs)
      then acc # split_from sep [] (drop (length sep) (c # cs))
      else split_from sep (acc @ [c]) cs)"
  by pat_completeness auto
termination
  by (relation "measure (\<lambda>(sep, acc, s). length s)") auto

definition str_split :: "string \<Rightarrow> string \<Rightarrow> string list" where
  "str_split s sep = split_from sep [] s"

text \<open>\<^verbatim>\<open>xs[1]\<close>: the second element, \<^verbatim>\<open>IndexError\<close> for a list shorter than two.\<close>

fun index1 :: "'a list \<Rightarrow> error + 'a" where
  "index1 (x # y # _) = Inr y"
| "index1 _ = Inl IndexError"

text \<open>
  \<^verbatim>\<open>m.split(": ")[1]\<close> on a decoded value: only a string has \<^verbatim>\<open>split\<close>.
\<close>

fun split_detail :: "pyval \<Rightarrow> error + pyval" where
  "split_detail (PStr m) =
     (case index1 (str_split m '': '') of Inl e \<Rightarrow> Inl e | Inr d \<Rightarrow> Inr (PStr d))"
| "split_detail _ = Inl AttributeError"

section \<open>Requests and responses\<close>

text \<open>
  A POST leaves the client either through a \<^verbatim>\<open>requests\<close> session object
  (\<^verbatim>\<open>session.post\<close>, identified by the handle of the session) or through the module-level
  function \<^verbatim>\<open>requests.post\<close>, which opens a session of its own for the one call and closes
  it afterwards.
\<close>

datatype channel = Via_session nat | Via_module

record request =
  via :: channel
  target :: string
  form :: dict

text \<open>
  Of a response the client reads \<^verbatim>\<open>status_code\<close> and \<^verbatim>\<open>json()\<close>. The call
  \<^verbatim>\<open>r.json()\<close> has three outcomes: it returns the decoded value, it raises
  \<^verbatim>\<open>json.decoder.JSONDecodeError\<close> (the one class the \<^verbatim>\<open>except\<close> clauses of the client
  name), or it raises an exception of another class.
\<close>

datatype json_outcome = Parsed pyval | JSONDecodeError | Raises json_exn

record response =
  status_code :: int
  json_body :: json_outcome

type_synonym server = "request \<Rightarrow> response"

section \<open>The client\<close>

record yourls =
  is_using_signature_auth :: bool
  global_args :: dict
  api_endpoint :: string
  session :: nat

text \<open>
  What \<^verbatim>\<open>urllib3.util.parse_url\<close> gives for a string: it raises
  \<^verbatim>\<open>LocationParseError\<close>, or returns a URL whose scheme component is a string or
  \<^verbatim>\<open>None\<close>. The function itself belongs to urllib3 and is a parameter of the model. On
  a value that is not a string and not false it raises \<^verbatim>\<open>TypeError\<close> (its regular
  expression search expects a string).
\<close>

datatype parse_result = Parse_error | Scheme "string option"

text \<open>
  \<^verbatim>\<open>Yourls.__init__\<close>, lines 21 to 53: argument checks, the global parameters, the
  endpoint and the session. \<^verbatim>\<open>parse_url\<close> stands for \<^verbatim>\<open>urllib3.util.parse_url\<close> on
  strings; \<^verbatim>\<open>sid\<close> is the handle of the session that \<^verbatim>\<open>requests.session()\<close>
  returns. Line 54 assigns to the attribute \<^verbatim>\<open>session.headers.update\<close> and sends nothing.
\<close>

definition init_config :: "(string \<Rightarrow> parse_result) \<Rightarrow> nat \<Rightarrow>
    pyval \<Rightarrow> pyval \<Rightarrow> pyval \<Rightarrow> pyval \<Rightarrow> error + yourls" where
  "init_config parse_url sid addr user passwd key =
    (if \<not> truthy addr then Inl (Pyourls3ParamError ''API URL'')
     else case addr of
       PStr a \<Rightarrow>
        (case parse_url a of
           Parse_error \<Rightarrow> Inl LocationParseError
         | Scheme scheme \<Rightarrow>
            if scheme = None \<or> scheme = Some [] then Inl (Pyourls3ParamError ''addr'')
            else
              (case
                 (if user = PNone \<or> passwd = PNone then
                    if key = PNone
                    then Inl (Pyourls3ParamError ''username and password or signature'')
                    else if \<not> is_str key then Inl (Pyourls3ParamError ''key'')
                    else Inr (True, [(''signature'', key)])
                  else if \<not> is_str user then Inl (Pyourls3ParamError ''user'')
                  else if \<not> is_str passwd then Inl (Pyourls3ParamError ''passwd'')
                  else Inr (False, [(''username'', user), (''password'', passwd)]))
               of
                 Inl e \<Rightarrow> Inl e
               | Inr (sig_auth, args) \<Rightarrow>
                   Inr \<lparr>is_using_signature_auth = sig_auth,
                        global_args = dict_set ''format'' (PStr ''json'') args,
                        api_endpoint =
                          (if last a \<noteq> CHR ''/'' then a @ ''/'' else a) @ ''yourls-api.php'',
                        session = sid\<rparr>))
     | _ \<Rightarrow> Inl TypeError)"

text \<open>The validation POST of line 56: through the session, with the global parameters.\<close>

definition probe_request :: "yourls \<Rightarrow> request" where
  "probe_request self =
     \<lparr>via = Via_session (session self), target = api_endpoint self,
      form = dict_merge [] (global_args self)\<rparr>"

text \<open>\<^verbatim>\<open>Yourls.__init__\<close> as a whole: the set-up, then the probe of lines 56 and 57.\<close>

definition init :: "(string \<Rightarrow> parse_result) \<Rightarrow> nat \<Rightarrow> server \<Rightarrow>
    pyval \<Rightarrow> pyval \<Rightarrow> pyval \<Rightarrow> pyval \<Rightarrow> error + yourls" where
  "init parse_url sid srv addr user passwd key =
    (case init_config parse_url sid addr user passwd key of
       Inl e \<Rightarrow> Inl e
     | Inr self \<Rightarrow>
        if status_code (srv (probe_request self)) = 403
        then Inl (Pyourls3APIError
                    (PStr ''credentials are invalid or incorrect: forbidden'') (PInt 403))
        else Inr self)"

subsection \<open>shorten\<close>

definition shorten_request :: "yourls \<Rightarrow> pyval \<Rightarrow> pyval \<Rightarrow> pyval \<Rightarrow> request" where
  "shorten_request self url keyword title =
    (let specific_args = [(''action'', PStr ''shorturl''), (''url'', url)];
         specific_args = (if keyword \<noteq> PNone
                          then dict_set ''keyword'' keyword specific_args else specific_args);
         specific_args = (if title \<noteq> PNone
                          then dict_set ''title'' title specific_args else specific_args)
     in \<lparr>via = Via_module, target = api_endpoint self,
         form = dict_merge (global_args self) specific_args\<rparr>)"

definition shorten :: "server \<Rightarrow> yourls \<Rightarrow> pyval \<Rightarrow> pyval \<Rightarrow> pyval \<Rightarrow> error + pyval" where
  "shorten srv self url keyword title =
    (if \<not> truthy url then Inl (Pyourls3ParamError ''url'')
     else
       let r = srv (shorten_request self url keyword title) in
       case json_body r of
         JSONDecodeError \<Rightarrow> Inl (Pyourls3HTTPError (status_code r) (api_endpoint self))
       | Raises x \<Rightarrow> Inl (Propagated x)
       | Parsed j \<Rightarrow>
          (case getitem j ''status'' of
             Inl e \<Rightarrow> Inl e
           | Inr st \<Rightarrow>
              if st \<noteq> PStr ''success'' then
                (case getitem j ''code'' of
                   Inl e \<Rightarrow> Inl e
                 | Inr c \<Rightarrow>
                    if c = PStr ''error:url'' then Inl (Pyourls3URLAlreadyExistsError url)
                    else
                      (case getitem j ''message'' of
                         Inl e \<Rightarrow> Inl e
                       | Inr m \<Rightarrow>
                          (case getitem j ''code'' of
                             Inl e \<Rightarrow> Inl e
                           | Inr c' \<Rightarrow> Inl (Pyourls3APIError m c'))))
              else Inr j))"

subsection \<open>update\<close>

definition update_request :: "yourls \<Rightarrow> pyval \<Rightarrow> pyval \<Rightarrow> request" where
  "update_request self url keyword =
    (let specific_args = [(''action'', PStr ''update''), (''shorturl'', url), (''url'', keyword)]
     in \<lparr>via = Via_module, target = api_endpoint self,
         form = dict_merge (global_args self) specific_args\<rparr>)"

definition update :: "server \<Rightarrow> yourls \<Rightarrow> pyval \<Rightarrow> pyval \<Rightarrow> error + pyval" where
  "update srv self url keyword =
    (if \<not> truthy url then Inl (Pyourls3ParamError ''url'')
     else
       let r = srv (update_request self url keyword) in
       case json_body r of
         JSONDecodeError \<Rightarrow> Inl (Pyourls3HTTPError (status_code r) (api_endpoint self))
       | Raises x \<Rightarrow> Inl (Propagated x)
       | Parsed j \<Rightarrow>
          (case getitem j ''status'' of
             Inl e \<Rightarrow> Inl e
           | Inr st \<Rightarrow>
              if st \<noteq> PStr ''success'' then
                (case getitem j ''code'' of
                   Inl e \<Rightarrow> Inl e
                 | Inr c \<Rightarrow>
                    if c = PStr ''error:url'' then Inl (Pyourls3URLAlreadyExistsError url)
                    else
                      (case getitem j ''message'' of
                         Inl e \<Rightarrow> Inl e
                       | Inr m \<Rightarrow>
                          (case getitem j ''code'' of
                             Inl e \<Rightarrow> Inl e
                           | Inr c' \<Rightarrow> Inl (Pyourls3APIError m c'))))
              else Inr j))"

subsection \<open>expand\<close>

definition expand_request :: "yourls \<Rightarrow> pyval \<Rightarrow> request" where
  "expand_request self url =
    (let specific_args = [(''action'', PStr ''expand''), (''shorturl'', url)]
     in \<lparr>via = Via_module, target = api_endpoint self,
         form = dict_merge (global_args self) specific_args\<rparr>)"

definition expand :: "server \<Rightarrow> yourls \<Rightarrow> pyval \<Rightarrow> error + pyval" where
  "expand srv self url =
    (if \<not> truthy url then Inl (Pyourls3ParamError ''url'')
     else
       let r = srv (expand_request self url) in
       case json_body r of
         JSONDecodeError \<Rightarrow> Inl (Pyourls3HTTPError (status_code r) (api_endpoint self))
       | Raises x \<Rightarrow> Inl (Propagated x)
       | Parsed j \<Rightarrow>
          (case getitem j ''message'' of
             Inl e \<Rightarrow> Inl e
           | Inr m \<Rightarrow>
              if m \<noteq> PStr ''success'' then
                (case split_detail m of
                   Inl e \<Rightarrow> Inl e
                 | Inr d \<Rightarrow>
                    (case getitem j ''code'' of
                       Inl e \<Rightarrow> Inl e
                     | Inr c \<Rightarrow> Inl (Pyourls3APIError d c)))
              else getitem j ''longurl''))"

subsection \<open>stats\<close>

definition stats_request :: "yourls \<Rightarrow> request" where
  "stats_request self =
    (let specific_args = [(''action'', PStr ''stats'')]
     in \<lparr>via = Via_module, target = api_endpoint self,
         form = dict_merge (global_args self) specific_args\<rparr>)"

definition stats :: "server \<Rightarrow> yourls \<Rightarrow> error + pyval" where
  "stats srv self =
    (let r = srv (stats_request self) in
     case json_body r of
       JSONDecodeError \<Rightarrow> Inl (Pyourls3HTTPError (status_code r) (api_endpoint self))
     | Raises x \<Rightarrow> Inl (Propagated x)
     | Parsed j \<Rightarrow> getitem j ''stats'')"

subsection \<open>delete\<close>

definition delete_request :: "yourls \<Rightarrow> pyval \<Rightarrow> request" where
  "delete_request self keyword =
    (let specific_args = [(''action'', PStr ''delete''), (''shorturl'', keyword)]
     in \<lparr>via = Via_module, target = api_endpoint self,
         form = dict_merge (global_args self) specific_args\<rparr>)"

definition delete :: "server \<Rightarrow> yourls \<Rightarrow> pyval \<Rightarrow> error + bool" where
  "delete srv self keyword =
    (if \<not> truthy keyword then Inl (Pyourls3ParamError ''url'')
     else
       let r = srv (delete_request self keyword) in
       if status_code r = 200 then Inr True
       else Inl (Pyourls3HTTPError (status_code r) (api_endpoint self)))"

subsection \<open>url\_stats\<close>

definition url_stats_request :: "yourls \<Rightarrow> pyval \<Rightarrow> request" where
  "url_stats_request self url =
    (let specific_args = [(''action'', PStr ''url-stats''), (''shorturl'', url)]
     in \<lparr>via = Via_module, target = api_endpoint self,
         form = dict_merge (global_args self) specific_args\<rparr>)"

definition url_stats :: "server \<Rightarrow> yourls \<Rightarrow> pyval \<Rightarrow> error + pyval" where
  "url_stats srv self url =
    (if \<not> truthy url then Inl (Pyourls3ParamError ''url'')
     else
       let r = srv (url_stats_request self url) in
       case json_body r of
         JSONDecodeError \<Rightarrow> Inl (Pyourls3HTTPError (status_code r) (api_endpoint self))
       | Raises x \<Rightarrow> Inl (Propagated x)
       | Parsed j \<Rightarrow>
          (case getitem j ''message'' of
             Inl e \<Rightarrow> Inl e
           | Inr m \<Rightarrow>
              if m \<noteq> PStr ''success'' then
                (case split_detail m of
                   Inl e \<Rightarrow> Inl e
                 | Inr d \<Rightarrow>
                    (case getitem j ''code'' of
                       Inl e \<Rightarrow> Inl e
                     | Inr c \<Rightarrow> Inl (Pyourls3APIError d c)))
              else getitem j ''link''))"

section \<open>A concrete client and concrete servers\<close>

definition demo_client :: yourls where
  "demo_client =
     \<lparr>is_using_signature_auth = True,
      global_args = [(''signature'', PStr ''k''), (''format'', PStr ''json'')],
      api_endpoint = ''http://y/yourls-api.php'',
      session = 0\<rparr>"

text \<open>A server that answers every request with the same status code and body.\<close>

definition answering :: "int \<Rightarrow> json_outcome \<Rightarrow> server" where
  "answering code body = (\<lambda>_. \<lparr>status_code = code, json_body = body\<rparr>)"

text \<open>
  A server that answers the requests of one action with one response and every other
  request with another.
\<close>

definition answering_action :: "string \<Rightarrow> response \<Rightarrow> response \<Rightarrow> server" where
  "answering_action a r r' =
     (\<lambda>q. if map_of (form q) ''action'' = Some (PStr a) then r else r')"

text \<open>
  A \<^verbatim>\<open>parse_url\<close> that finds the scheme \<^verbatim>\<open>http\<close> in the addresses that begin with
  \<^verbatim>\<open>http:\<close> and no scheme in the others.
\<close>

definition http_scheme :: "string \<Rightarrow> parse_result" where
  "http_scheme a = (if prefix ''http:'' a then Scheme (Some ''http'') else Scheme None)"

section \<open>Auxiliary facts\<close>

text \<open>A string without the separator is split into one piece, itself.\<close>

lemma split_from_no_sep:
  "sep \<noteq> [] \<Longrightarrow> \<not> sublist sep s \<Longrightarrow> split_from sep acc s = [acc @ s]"
proof (induction s arbitrary: acc)
  case Nil
  then show ?case by simp
next
  case (Cons c cs)
  from Cons.prems(2) have np: "\<not> prefix sep (c # cs)" and ns: "\<not> sublist sep cs"
    by (auto simp: sublist_Cons_right)
  from Cons.IH[OF Cons.prems(1) ns, of "acc @ [c]"] np show ?case by simp
qed

lemma split_detail_no_sep:
  "\<not> sublist '': '' m \<Longrightarrow> split_detail (PStr m) = Inl IndexError"
  by (simp add: str_split_def split_from_no_sep)

lemma split_detail_not_str:
  "\<not> is_str v \<Longrightarrow> split_detail v = Inl AttributeError"
  by (cases v) simp_all

lemma is_str_not_None:
  "is_str v \<Longrightarrow> v \<noteq> PNone"
  by (cases v) simp_all

lemma getitem_not_dict:
  "\<forall>d. j \<noteq> PDict d \<Longrightarrow> getitem j k = Inl TypeError"
  by (cases j) simp_all

text \<open>The set-up part of the constructor raises no \<^verbatim>\<open>Pyourls3APIError\<close>.\<close>

lemma init_config_not_APIError:
  "init_config parse_url sid addr user passwd key \<noteq> Inl (Pyourls3APIError m c)"
  unfolding init_config_def
  by (simp split: parse_result.split pyval.split)

lemma init_Inr_config:
  "init parse_url sid srv addr user passwd key = Inr self \<Longrightarrow>
   init_config parse_url sid addr user passwd key = Inr self"
  by (simp add: init_def split: sum.splits if_splits)

text \<open>
  The set-up on an address that passes the checks of lines 21 to 27: what is left is the
  choice of the credentials.
\<close>

lemma init_config_valid_addr:
  assumes "a \<noteq> []" and "parse_url a = Scheme (Some s)" and "s \<noteq> []"
  shows "init_config parse_url sid (PStr a) user passwd key =
    (if user = PNone \<or> passwd = PNone then
       if key = PNone then Inl (Pyourls3ParamError ''username and password or signature'')
       else if \<not> is_str key then Inl (Pyourls3ParamError ''key'')
       else Inr \<lparr>is_using_signature_auth = True,
                 global_args = [(''signature'', key), (''format'', PStr ''json'')],
                 api_endpoint = (if last a \<noteq> CHR ''/'' then a @ ''/'' else a) @ ''yourls-api.php'',
                 session = sid\<rparr>
     else if \<not> is_str user then Inl (Pyourls3ParamError ''user'')
     else if \<not> is_str passwd then Inl (Pyourls3ParamError ''passwd'')
     else Inr \<lparr>is_using_signature_auth = False,
               global_args = [(''username'', user), (''password'', passwd),
                              (''format'', PStr ''json'')],
               api_endpoint = (if last a \<noteq> CHR ''/'' then a @ ''/'' else a) @ ''yourls-api.php'',
               session = sid\<rparr>)"
  using assms by (simp add: init_config_def)

lemma init_config_no_credentials:
  assumes "parse_url a \<noteq> Parse_error" and "user = PNone \<or> passwd = PNone" and "key = PNone"
  shows "\<exists>m. init_config parse_url sid (PStr a) user passwd key = Inl (Pyourls3ParamError m)"
  using assms unfolding init_config_def
  by (cases "parse_url a") auto

text \<open>The two shapes of the global parameters of a client that was set up.\<close>

lemma init_config_global_args:
  assumes "init_config parse_url sid addr user passwd key = Inr self"
  shows "(\<exists>u p. user = PStr u \<and> passwd = PStr p \<and> \<not> is_using_signature_auth self \<and>
            global_args self =
              [(''username'', PStr u), (''password'', PStr p), (''format'', PStr ''json'')])
       \<or> (\<exists>k. key = PStr k \<and> (user = PNone \<or> passwd = PNone) \<and> is_using_signature_auth self \<and>
            global_args self = [(''signature'', PStr k), (''format'', PStr ''json'')])"
proof -
  from assms obtain a where a: "addr = PStr a" and ne: "a \<noteq> []"
    unfolding init_config_def by (cases addr) (auto split: if_splits)
  from assms a obtain s where s: "parse_url a = Scheme (Some s)" "s \<noteq> []"
    unfolding init_config_def
    by (cases "parse_url a") (auto split: if_splits)
  from assms show ?thesis
    unfolding a init_config_valid_addr[where parse_url = parse_url and a = a and s = s, OF ne s]
    by (cases user; cases passwd; cases key) (auto split: if_splits)
qed

section \<open>Where the duplicate-URL error is raised\<close>

text \<open>
  C1. The claim reserves \<^verbatim>\<open>Pyourls3URLAlreadyExistsError\<close> for \<^verbatim>\<open>shorten\<close>. The
  body of \<^verbatim>\<open>update\<close> repeats the branch of \<^verbatim>\<open>shorten\<close>: for a response whose status is
  not \<^verbatim>\<open>"success"\<close> and whose code is \<^verbatim>\<open>"error:url"\<close>, \<^verbatim>\<open>update\<close> raises
  \<^verbatim>\<open>Pyourls3URLAlreadyExistsError\<close> with its first argument, although its docstring lists
  only the parameter, HTTP and API errors.
\<close>

theorem update_raises_URLAlreadyExistsError:
  "update
     (answering 200 (Parsed (PDict [(''status'', PStr ''fail''), (''code'', PStr ''error:url''),
                                    (''message'', PStr ''x'')])))
     demo_client (PStr ''abc'') (PStr ''http://new'')
   = Inl (Pyourls3URLAlreadyExistsError (PStr ''abc''))"
  by (simp add: update_def answering_def)

text \<open>
  The shorten half of C1, for the record: \<^verbatim>\<open>shorten\<close> raises
  \<^verbatim>\<open>Pyourls3URLAlreadyExistsError\<close> exactly when the response is a JSON object whose status
  is not \<^verbatim>\<open>"success"\<close> and whose code is \<^verbatim>\<open>"error:url"\<close>, and the error carries the url.
\<close>

lemma shorten_URLAlreadyExistsError_iff:
  "shorten srv self url keyword title = Inl (Pyourls3URLAlreadyExistsError u) \<longleftrightarrow>
   truthy url \<and> u = url \<and>
   (\<exists>d st. json_body (srv (shorten_request self url keyword title)) = Parsed (PDict d) \<and>
      map_of d ''status'' = Some st \<and> st \<noteq> PStr ''success'' \<and>
      map_of d ''code'' = Some (PStr ''error:url''))"
proof (cases "json_body (srv (shorten_request self url keyword title))")
  case (Parsed j)
  show ?thesis
  proof (cases j)
    case (PDict d)
    with Parsed show ?thesis
      by (auto simp: shorten_def Let_def split: option.splits)
  qed (use Parsed in \<open>simp_all add: shorten_def Let_def\<close>)
qed (simp_all add: shorten_def Let_def)

section \<open>Bodies that are not JSON\<close>

text \<open>
  Two inputs at which a body that is not JSON does not lead to \<^verbatim>\<open>Pyourls3HTTPError\<close>.
  \<^verbatim>\<open>delete\<close> never calls \<^verbatim>\<open>json()\<close>: with status 200 it returns \<^verbatim>\<open>True\<close> whatever the
  body is. And the \<^verbatim>\<open>except\<close> clause of the other methods names
  \<^verbatim>\<open>json.decoder.JSONDecodeError\<close> only: where \<^verbatim>\<open>json()\<close> fails with an exception of
  another class, such as the \<^verbatim>\<open>RecursionError\<close> on a long run of opening brackets, that
  exception reaches the caller.
\<close>

theorem delete_unparseable_body_returns_True:
  "json_body (answering 200 JSONDecodeError (delete_request demo_client (PStr ''abc''))) =
     JSONDecodeError
   \<and> delete (answering 200 JSONDecodeError) demo_client (PStr ''abc'') = Inr True
   \<and> shorten (answering 200 (Raises RecursionError)) demo_client (PStr ''abc'') PNone PNone =
       Inl (Propagated RecursionError)"
  by (simp add: delete_def shorten_def answering_def)

text \<open>
  C2, amended. When \<^verbatim>\<open>json()\<close> raises \<^verbatim>\<open>json.decoder.JSONDecodeError\<close> on the response
  to the request of the call, \<^verbatim>\<open>shorten\<close>, \<^verbatim>\<open>update\<close>, \<^verbatim>\<open>expand\<close> and \<^verbatim>\<open>url_stats\<close>
  (called with a non-empty url) and \<^verbatim>\<open>stats\<close> raise \<^verbatim>\<open>Pyourls3HTTPError\<close> with the
  status code of that response and the API endpoint of the client. \<^verbatim>\<open>delete\<close> (called with
  a non-empty keyword) does not look at the body: it returns \<^verbatim>\<open>True\<close> for status 200 and
  raises that \<^verbatim>\<open>Pyourls3HTTPError\<close> for every other status.
\<close>

theorem unparseable_body_HTTPError:
  "(truthy url \<and> json_body (srv (shorten_request self url keyword title)) = JSONDecodeError \<longrightarrow>
      shorten srv self url keyword title =
        Inl (Pyourls3HTTPError (status_code (srv (shorten_request self url keyword title)))
               (api_endpoint self)))
   \<and> (truthy url \<and> json_body (srv (update_request self url keyword)) = JSONDecodeError \<longrightarrow>
      update srv self url keyword =
        Inl (Pyourls3HTTPError (status_code (srv (update_request self url keyword)))
               (api_endpoint self)))
   \<and> (truthy url \<and> json_body (srv (expand_request self url)) = JSONDecodeError \<longrightarrow>
      expand srv self url =
        Inl (Pyourls3HTTPError (status_code (srv (expand_request self url)))
               (api_endpoint self)))
   \<and> (json_body (srv (stats_request self)) = JSONDecodeError \<longrightarrow>
      stats srv self =
        Inl (Pyourls3HTTPError (status_code (srv (stats_request self))) (api_endpoint self)))
   \<and> (truthy url \<and> json_body (srv (url_stats_request self url)) = JSONDecodeError \<longrightarrow>
      url_stats srv self url =
        Inl (Pyourls3HTTPError (status_code (srv (url_stats_request self url)))
               (api_endpoint self)))
   \<and> (truthy keyword \<longrightarrow>
      delete srv self keyword =
        (if status_code (srv (delete_request self keyword)) = 200 then Inr True
         else Inl (Pyourls3HTTPError (status_code (srv (delete_request self keyword)))
                     (api_endpoint self))))"
  by (simp add: shorten_def update_def expand_def stats_def url_stats_def delete_def Let_def)

text \<open>
  The statement at two servers: one whose every answer is status 500 with a body that is
  not JSON, and one that answers only the action \<^verbatim>\<open>shorturl\<close> that way (status 502) and
  every other action with a JSON success.
\<close>

theorem unparseable_body_HTTPError_witness:
  "truthy (PStr ''abc'')
   \<and> json_body (answering 500 JSONDecodeError (expand_request demo_client (PStr ''abc''))) =
       JSONDecodeError
   \<and> shorten
       (answering_action ''shorturl'' \<lparr>status_code = 502, json_body = JSONDecodeError\<rparr>
          \<lparr>status_code = 200, json_body = Parsed (PDict [(''status'', PStr ''success'')])\<rparr>)
       demo_client (PStr ''abc'') PNone PNone =
       Inl (Pyourls3HTTPError 502 ''http://y/yourls-api.php'')
   \<and> update (answering 500 JSONDecodeError) demo_client (PStr ''abc'') PNone =
       Inl (Pyourls3HTTPError 500 ''http://y/yourls-api.php'')
   \<and> expand (answering 500 JSONDecodeError) demo_client (PStr ''abc'') =
       Inl (Pyourls3HTTPError 500 ''http://y/yourls-api.php'')
   \<and> stats (answering 500 JSONDecodeError) demo_client =
       Inl (Pyourls3HTTPError 500 ''http://y/yourls-api.php'')
   \<and> url_stats (answering 500 JSONDecodeError) demo_client (PStr ''abc'') =
       Inl (Pyourls3HTTPError 500 ''http://y/yourls-api.php'')
   \<and> delete (answering 500 JSONDecodeError) demo_client (PStr ''abc'') =
       Inl (Pyourls3HTTPError 500 ''http://y/yourls-api.php'')"
proof -
  let ?two = "answering_action ''shorturl'' \<lparr>status_code = 502, json_body = JSONDecodeError\<rparr>
          \<lparr>status_code = 200, json_body = Parsed (PDict [(''status'', PStr ''success'')])\<rparr>"
  have q: "?two (shorten_request demo_client (PStr ''abc'') PNone PNone) =
      \<lparr>status_code = 502, json_body = JSONDecodeError\<rparr>"
    by (simp add: answering_action_def shorten_request_def dict_merge_def demo_client_def)
  from unparseable_body_HTTPError[where srv = ?two and url = "PStr ''abc''"
      and self = demo_client and keyword = PNone and title = PNone] q
  have s: "shorten ?two demo_client (PStr ''abc'') PNone PNone =
      Inl (Pyourls3HTTPError 502 ''http://y/yourls-api.php'')"
    by (simp add: demo_client_def)
  from unparseable_body_HTTPError[where srv = "answering 500 JSONDecodeError"
      and url = "PStr ''abc''" and self = demo_client and keyword = "PStr ''abc''"
      and title = PNone]
    unparseable_body_HTTPError[where srv = "answering 500 JSONDecodeError"
      and url = "PStr ''abc''" and self = demo_client and keyword = PNone and title = PNone]
    s
  show ?thesis
    by (simp add: answering_def demo_client_def)
qed

section \<open>The error detail of expand and url\_stats\<close>

text \<open>
  C3. The claim has the detail be everything behind the leading \<^verbatim>\<open>"error: "\<close>. The code
  takes element 1 of \<^verbatim>\<open>message.split(": ")\<close>, which ends at the next \<^verbatim>\<open>": "\<close>: for the
  message \<^verbatim>\<open>"error: a: b"\<close> both methods raise \<^verbatim>\<open>Pyourls3APIError\<close> with the detail
  \<^verbatim>\<open>"a"\<close> and not \<^verbatim>\<open>"a: b"\<close>.
\<close>

theorem split_detail_keeps_second_piece_only:
  "expand
     (answering 200 (Parsed (PDict [(''message'', PStr ''error: a: b''), (''code'', PStr ''E'')])))
     demo_client (PStr ''abc'')
   = Inl (Pyourls3APIError (PStr ''a'') (PStr ''E''))
   \<and> url_stats
     (answering 200 (Parsed (PDict [(''message'', PStr ''error: a: b''), (''code'', PStr ''E'')])))
     demo_client (PStr ''abc'')
   = Inl (Pyourls3APIError (PStr ''a'') (PStr ''E''))"
  by (simp add: expand_def url_stats_def answering_def str_split_def)

section \<open>Credentials\<close>

text \<open>
  Two constructions that are accepted. The constructor checks the type of a credential,
  not its length: empty strings for user and password are accepted and sent. And it
  checks only the credentials it is going to send: with a key and no password, a user that
  is the number 5 is never looked at.
\<close>

theorem init_accepts_empty_credentials:
  "init http_scheme 0 (answering 200 JSONDecodeError) (PStr ''http://y'')
       (PStr '''') (PStr '''') PNone =
     Inr \<lparr>is_using_signature_auth = False,
          global_args = [(''username'', PStr ''''), (''password'', PStr ''''),
                         (''format'', PStr ''json'')],
          api_endpoint = ''http://y/yourls-api.php'', session = 0\<rparr>
   \<and> init http_scheme 0 (answering 200 JSONDecodeError) (PStr ''http://y'')
       (PInt 5) PNone (PStr ''k'') =
     Inr \<lparr>is_using_signature_auth = True,
          global_args = [(''signature'', PStr ''k''), (''format'', PStr ''json'')],
          api_endpoint = ''http://y/yourls-api.php'', session = 0\<rparr>"
  by (simp add: init_def init_config_def http_scheme_def answering_def)

text \<open>
  C4, amended. The constructor checks the credentials it sends to be strings; it does not
  check that they are non-empty, and it does not check a credential it does not send.
  Constructing with neither user and password both supplied nor key supplied raises
  \<^verbatim>\<open>Pyourls3ParamError\<close> (for a string address on which \<^verbatim>\<open>parse_url\<close> raises nothing of
  its own); on an address that passes the address checks that error is the one for
  missing credentials, a key that is sent and is not a string raises the error for the key,
  and a user or password that is sent and is not a string raises the error for the user
  or the password; a string key with user or password missing, and a string user with a
  string password, pass the set-up, whatever the strings and the credential that is not
  sent are. For every accepted construction the global parameters hold either
  username and password or signature, never both and never neither, and every credential
  in them is a string.
\<close>

theorem init_credentials:
  "(addr = PStr a \<and> parse_url a \<noteq> Parse_error \<and> (user = PNone \<or> passwd = PNone) \<and> key = PNone \<longrightarrow>
      (\<exists>m. init parse_url sid srv addr user passwd key = Inl (Pyourls3ParamError m)))
   \<and> (addr = PStr a \<and> a \<noteq> [] \<and> parse_url a = Scheme (Some s) \<and> s \<noteq> [] \<longrightarrow>
        ((user = PNone \<or> passwd = PNone) \<and> key = PNone \<longrightarrow>
           init parse_url sid srv addr user passwd key =
             Inl (Pyourls3ParamError ''username and password or signature''))
      \<and> ((user = PNone \<or> passwd = PNone) \<and> key \<noteq> PNone \<and> \<not> is_str key \<longrightarrow>
           init parse_url sid srv addr user passwd key = Inl (Pyourls3ParamError ''key''))
      \<and> (user \<noteq> PNone \<and> passwd \<noteq> PNone \<and> \<not> is_str user \<longrightarrow>
           init parse_url sid srv addr user passwd key = Inl (Pyourls3ParamError ''user''))
      \<and> (user \<noteq> PNone \<and> passwd \<noteq> PNone \<and> is_str user \<and> \<not> is_str passwd \<longrightarrow>
           init parse_url sid srv addr user passwd key = Inl (Pyourls3ParamError ''passwd''))
      \<and> ((user = PNone \<or> passwd = PNone) \<and> is_str key \<longrightarrow>
           (\<exists>self. init_config parse_url sid addr user passwd key = Inr self \<and>
              global_args self = [(''signature'', key), (''format'', PStr ''json'')]))
      \<and> (is_str user \<and> is_str passwd \<longrightarrow>
           (\<exists>self. init_config parse_url sid addr user passwd key = Inr self \<and>
              global_args self =
                [(''username'', user), (''password'', passwd), (''format'', PStr ''json'')])))
   \<and> (init parse_url sid srv addr user passwd key = Inr self \<longrightarrow>
        (let g = map_of (global_args self) in
           ((g ''username'' \<noteq> None \<and> g ''password'' \<noteq> None \<and> g ''signature'' = None)
            \<or> (g ''signature'' \<noteq> None \<and> g ''username'' = None \<and> g ''password'' = None))
           \<and> (\<forall>k \<in> {''username'', ''password'', ''signature''}.
                 \<forall>v. g k = Some v \<longrightarrow> is_str v)))"
proof (intro conjI impI)
  assume "addr = PStr a \<and> parse_url a \<noteq> Parse_error \<and> (user = PNone \<or> passwd = PNone) \<and>
    key = PNone"
  then obtain m where "init_config parse_url sid addr user passwd key = Inl (Pyourls3ParamError m)"
    using init_config_no_credentials[of parse_url a user passwd key sid] by blast
  then show "\<exists>m. init parse_url sid srv addr user passwd key = Inl (Pyourls3ParamError m)"
    by (simp add: init_def)
next
  assume "init parse_url sid srv addr user passwd key = Inr self"
  then have "init_config parse_url sid addr user passwd key = Inr self"
    by (rule init_Inr_config)
  from init_config_global_args[OF this]
  show "let g = map_of (global_args self) in
           ((g ''username'' \<noteq> None \<and> g ''password'' \<noteq> None \<and> g ''signature'' = None)
            \<or> (g ''signature'' \<noteq> None \<and> g ''username'' = None \<and> g ''password'' = None))
           \<and> (\<forall>k \<in> {''username'', ''password'', ''signature''}.
                 \<forall>v. g k = Some v \<longrightarrow> is_str v)"
    by (auto simp: Let_def)
qed (auto simp: init_def init_config_valid_addr dest: is_str_not_None)

theorem init_credentials_witness:
  "http_scheme ''http://y'' = Scheme (Some ''http'')
   \<and> init http_scheme 0 (answering 200 JSONDecodeError) (PStr ''http://y'') PNone PNone PNone =
       Inl (Pyourls3ParamError ''username and password or signature'')
   \<and> init http_scheme 0 (answering 200 JSONDecodeError) (PStr ''http://y'') (PStr ''u'') PNone PNone =
       Inl (Pyourls3ParamError ''username and password or signature'')
   \<and> init http_scheme 0 (answering 200 JSONDecodeError) (PStr ''http://y'') PNone PNone (PInt 5) =
       Inl (Pyourls3ParamError ''key'')
   \<and> init http_scheme 0 (answering 200 JSONDecodeError) (PStr ''http://y'') (PInt 5) (PStr ''p'')
       PNone = Inl (Pyourls3ParamError ''user'')
   \<and> init http_scheme 0 (answering 200 JSONDecodeError) (PStr ''http://y'') (PStr ''u'') (PInt 5)
       PNone = Inl (Pyourls3ParamError ''passwd'')
   \<and> (\<exists>self. init_config http_scheme 0 (PStr ''http://y'') (PInt 5) PNone (PStr ''k'') = Inr self
         \<and> global_args self = [(''signature'', PStr ''k''), (''format'', PStr ''json'')])
   \<and> (\<exists>self. init_config http_scheme 0 (PStr ''http://y'') (PStr '''') (PStr '''') (PInt 5) =
           Inr self
         \<and> global_args self =
             [(''username'', PStr ''''), (''password'', PStr ''''), (''format'', PStr ''json'')])
   \<and> init http_scheme 0 (answering 200 JSONDecodeError) (PStr ''http://y/'') PNone PNone
       (PStr ''k'') = Inr demo_client
   \<and> map_of (global_args demo_client) ''signature'' = Some (PStr ''k'')
   \<and> map_of (global_args demo_client) ''username'' = None
   \<and> map_of (global_args demo_client) ''password'' = None
   \<and> is_str (PStr ''k'')"
proof -
  let ?srv = "answering 200 JSONDecodeError"
  have h: "http_scheme ''http://y'' = Scheme (Some ''http'')"
    by (simp add: http_scheme_def)
  have ok: "init http_scheme 0 ?srv (PStr ''http://y/'') PNone PNone (PStr ''k'') = Inr demo_client"
    by (simp add: init_def init_config_def http_scheme_def answering_def demo_client_def)
  from init_credentials[where parse_url = http_scheme and addr = "PStr ''http://y''"
      and a = "''http://y''" and s = "''http''" and sid = 0 and srv = ?srv
      and user = PNone and passwd = PNone and key = PNone] h
  have n1: "init http_scheme 0 ?srv (PStr ''http://y'') PNone PNone PNone =
      Inl (Pyourls3ParamError ''username and password or signature'')"
    by simp
  from init_credentials[where parse_url = http_scheme and addr = "PStr ''http://y''"
      and a = "''http://y''" and s = "''http''" and sid = 0 and srv = ?srv
      and user = "PStr ''u''" and passwd = PNone and key = PNone] h
  have n2: "init http_scheme 0 ?srv (PStr ''http://y'') (PStr ''u'') PNone PNone =
      Inl (Pyourls3ParamError ''username and password or signature'')"
    by simp
  from init_credentials[where parse_url = http_scheme and addr = "PStr ''http://y''"
      and a = "''http://y''" and s = "''http''" and sid = 0 and srv = ?srv
      and user = PNone and passwd = PNone and key = "PInt 5"] h
  have k: "init http_scheme 0 ?srv (PStr ''http://y'') PNone PNone (PInt 5) =
      Inl (Pyourls3ParamError ''key'')"
    by simp
  from init_credentials[where parse_url = http_scheme and addr = "PStr ''http://y''"
      and a = "''http://y''" and s = "''http''" and sid = 0 and srv = ?srv
      and user = "PInt 5" and passwd = "PStr ''p''" and key = PNone] h
  have u: "init http_scheme 0 ?srv (PStr ''http://y'') (PInt 5) (PStr ''p'') PNone =
      Inl (Pyourls3ParamError ''user'')"
    by simp
  from init_credentials[where parse_url = http_scheme and addr = "PStr ''http://y''"
      and a = "''http://y''" and s = "''http''" and sid = 0 and srv = ?srv
      and user = "PStr ''u''" and passwd = "PInt 5" and key = PNone] h
  have p: "init http_scheme 0 ?srv (PStr ''http://y'') (PStr ''u'') (PInt 5) PNone =
      Inl (Pyourls3ParamError ''passwd'')"
    by simp
  from init_credentials[where parse_url = http_scheme and addr = "PStr ''http://y''"
      and a = "''http://y''" and s = "''http''" and sid = 0 and srv = ?srv
      and user = "PInt 5" and passwd = PNone and key = "PStr ''k''"] h
  have a1: "\<exists>self. init_config http_scheme 0 (PStr ''http://y'') (PInt 5) PNone (PStr ''k'') =
        Inr self
      \<and> global_args self = [(''signature'', PStr ''k''), (''format'', PStr ''json'')]"
    by simp
  from init_credentials[where parse_url = http_scheme and addr = "PStr ''http://y''"
      and a = "''http://y''" and s = "''http''" and sid = 0 and srv = ?srv
      and user = "PStr ''''" and passwd = "PStr ''''" and key = "PInt 5"] h
  have a2: "\<exists>self. init_config http_scheme 0 (PStr ''http://y'') (PStr '''') (PStr '''') (PInt 5) =
        Inr self
      \<and> global_args self =
          [(''username'', PStr ''''), (''password'', PStr ''''), (''format'', PStr ''json'')]"
    by simp
  from init_credentials[where parse_url = http_scheme and addr = "PStr ''http://y/''"
      and sid = 0 and srv = ?srv and user = PNone and passwd = PNone and key = "PStr ''k''"
      and self = demo_client] ok
  have g: "map_of (global_args demo_client) ''signature'' \<noteq> None
      \<and> map_of (global_args demo_client) ''username'' = None
      \<and> map_of (global_args demo_client) ''password'' = None"
    by (simp add: Let_def demo_client_def)
  from h ok n1 n2 k u p a1 a2 g show ?thesis by (simp add: demo_client_def)
qed

section \<open>The session\<close>

text \<open>
  C5. The claim has every API call go through the session opened by the constructor. Only
  the probe of the constructor does (\<^verbatim>\<open>self.session.post\<close>); the six methods call the
  module-level \<^verbatim>\<open>requests.post\<close>, so none of their requests uses the session of the client.
\<close>

theorem methods_post_via_module:
  "via (shorten_request self url keyword title) = Via_module
   \<and> via (update_request self url keyword) = Via_module
   \<and> via (expand_request self url) = Via_module
   \<and> via (stats_request self) = Via_module
   \<and> via (delete_request self keyword) = Via_module
   \<and> via (url_stats_request self url) = Via_module
   \<and> via (probe_request self) = Via_session (session self)"
  by (simp add: shorten_request_def update_request_def expand_request_def stats_request_def
      delete_request_def url_stats_request_def probe_request_def Let_def)

section \<open>delete\<close>

text \<open>
  C6. For every non-empty keyword, \<^verbatim>\<open>delete\<close> returns \<^verbatim>\<open>True\<close> exactly when the status
  code of the response is 200 and raises \<^verbatim>\<open>Pyourls3HTTPError\<close> with the status code and
  the endpoint for every other status code; the body of the response has no influence.
\<close>

theorem delete_by_status_code:
  assumes "truthy keyword"
  shows "delete srv self keyword =
           (if status_code (srv (delete_request self keyword)) = 200 then Inr True
            else Inl (Pyourls3HTTPError (status_code (srv (delete_request self keyword)))
                        (api_endpoint self)))
       \<and> delete (\<lambda>q. (srv q)\<lparr>json_body := b\<rparr>) self keyword = delete srv self keyword"
  using assms by (simp add: delete_def Let_def)

theorem delete_by_status_code_witness:
  "truthy (PStr ''abc'')
   \<and> delete (answering 200 (Parsed (PDict [(''status'', PStr ''fail'')]))) demo_client
       (PStr ''abc'') = Inr True
   \<and> delete (answering 404 (Parsed (PDict [(''status'', PStr ''success'')]))) demo_client
       (PStr ''abc'') = Inl (Pyourls3HTTPError 404 ''http://y/yourls-api.php'')"
proof -
  have t: "truthy (PStr ''abc'')" by simp
  from delete_by_status_code[OF t,
      of "answering 200 (Parsed (PDict [(''status'', PStr ''fail'')]))" demo_client]
    delete_by_status_code[OF t,
      of "answering 404 (Parsed (PDict [(''status'', PStr ''success'')]))" demo_client]
  show ?thesis by (simp add: answering_def demo_client_def)
qed

section \<open>The probe of the constructor\<close>

text \<open>
  C7. Construction fails with the authentication error, a \<^verbatim>\<open>Pyourls3APIError\<close> with code
  403, exactly when the arguments pass the checks and the response to the probe has status
  code 403; with any other status code construction raises no \<^verbatim>\<open>Pyourls3APIError\<close>.
\<close>

theorem init_probe_forbidden:
  "init parse_url sid srv addr user passwd key = Inl (Pyourls3APIError m c) \<longleftrightarrow>
   (\<exists>self. init_config parse_url sid addr user passwd key = Inr self \<and>
      status_code (srv (probe_request self)) = 403 \<and>
      m = PStr ''credentials are invalid or incorrect: forbidden'' \<and> c = PInt 403)"
proof (cases "init_config parse_url sid addr user passwd key")
  case (Inl e)
  with init_config_not_APIError[of parse_url sid addr user passwd key m c]
  show ?thesis by (simp add: init_def)
next
  case (Inr self)
  then show ?thesis by (auto simp: init_def)
qed

theorem init_probe_forbidden_witness:
  "init http_scheme 0 (answering 403 JSONDecodeError) (PStr ''http://y/'') PNone PNone
       (PStr ''k'') =
     Inl (Pyourls3APIError (PStr ''credentials are invalid or incorrect: forbidden'') (PInt 403))
   \<and> init http_scheme 0 (answering 401 JSONDecodeError) (PStr ''http://y/'') PNone PNone
       (PStr ''k'') \<noteq>
     Inl (Pyourls3APIError (PStr ''credentials are invalid or incorrect: forbidden'') (PInt 403))"
  using init_probe_forbidden[of http_scheme 0 "answering 403 JSONDecodeError" "PStr ''http://y/''"
      PNone PNone "PStr ''k''" "PStr ''credentials are invalid or incorrect: forbidden''" "PInt 403"]
    init_probe_forbidden[of http_scheme 0 "answering 401 JSONDecodeError" "PStr ''http://y/''"
      PNone PNone "PStr ''k''" "PStr ''credentials are invalid or incorrect: forbidden''" "PInt 403"]
  by (simp add: init_config_def http_scheme_def answering_def)

section \<open>The endpoint\<close>

text \<open>
  C8. Let \<^verbatim>\<open>a\<close> be a valid base address that does not end in \<^verbatim>\<open>"/"\<close>: it is not empty
  and \<^verbatim>\<open>parse_url\<close> finds a scheme in \<^verbatim>\<open>a\<close> and in \<^verbatim>\<open>a + "/"\<close>. With credentials that
  the constructor accepts, the set-up succeeds for both addresses and gives the same
  client, whose API endpoint is \<^verbatim>\<open>a + "/" + "yourls-api.php"\<close>; so the constructor as a
  whole, probe included, gives the same result for both.
\<close>

theorem api_endpoint_trailing_slash:
  assumes "a \<noteq> []" and "last a \<noteq> CHR ''/''"
    and "parse_url a = Scheme (Some s)" and "s \<noteq> []"
    and "parse_url (a @ ''/'') = Scheme (Some s')" and "s' \<noteq> []"
    and "(user \<noteq> PNone \<and> passwd \<noteq> PNone \<and> is_str user \<and> is_str passwd)
         \<or> ((user = PNone \<or> passwd = PNone) \<and> is_str key)"
  shows "\<exists>self.
           init_config parse_url sid (PStr a) user passwd key = Inr self
         \<and> init_config parse_url sid (PStr (a @ ''/'')) user passwd key = Inr self
         \<and> api_endpoint self = a @ ''/'' @ ''yourls-api.php''
         \<and> init parse_url sid srv (PStr a) user passwd key =
             init parse_url sid srv (PStr (a @ ''/'')) user passwd key"
proof -
  have ne: "a @ ''/'' \<noteq> []" by simp
  from assms(7) is_str_not_None[of key] have
    "init_config parse_url sid (PStr a) user passwd key =
       init_config parse_url sid (PStr (a @ ''/'')) user passwd key
     \<and> (\<exists>self. init_config parse_url sid (PStr a) user passwd key = Inr self
           \<and> api_endpoint self = a @ ''/'' @ ''yourls-api.php'')"
    unfolding
      init_config_valid_addr[where parse_url = parse_url and a = a and s = s,
        OF assms(1) assms(3) assms(4)]
      init_config_valid_addr[where parse_url = parse_url and a = "a @ ''/''" and s = s',
        OF ne assms(5) assms(6)]
    using assms(2) by auto
  then obtain self where
    e: "init_config parse_url sid (PStr a) user passwd key =
          init_config parse_url sid (PStr (a @ ''/'')) user passwd key"
    and c: "init_config parse_url sid (PStr a) user passwd key = Inr self"
    and p: "api_endpoint self = a @ ''/'' @ ''yourls-api.php''"
    by blast
  from e c have c': "init_config parse_url sid (PStr (a @ ''/'')) user passwd key = Inr self"
    by simp
  from e have i: "init parse_url sid srv (PStr a) user passwd key =
      init parse_url sid srv (PStr (a @ ''/'')) user passwd key"
    by (simp add: init_def)
  from c c' p i show ?thesis by blast
qed

theorem api_endpoint_trailing_slash_witness:
  "''http://example.com'' \<noteq> [] \<and> last ''http://example.com'' \<noteq> CHR ''/''
   \<and> http_scheme ''http://example.com'' = Scheme (Some ''http'')
   \<and> http_scheme (''http://example.com'' @ ''/'') = Scheme (Some ''http'')
   \<and> is_str (PStr ''k'')
   \<and> (\<exists>self.
         init_config http_scheme 0 (PStr ''http://example.com'') PNone PNone (PStr ''k'') = Inr self
       \<and> init_config http_scheme 0 (PStr (''http://example.com'' @ ''/'')) PNone PNone (PStr ''k'') =
           Inr self
       \<and> api_endpoint self = ''http://example.com/yourls-api.php'')"
proof -
  have a: "''http://example.com'' \<noteq> []" by simp
  have l: "last ''http://example.com'' \<noteq> CHR ''/''" by simp
  have p: "http_scheme ''http://example.com'' = Scheme (Some ''http'')"
    by (simp add: http_scheme_def)
  have p': "http_scheme (''http://example.com'' @ ''/'') = Scheme (Some ''http'')"
    by (simp add: http_scheme_def)
  have s: "''http'' \<noteq> []" by simp
  have c: "(PNone \<noteq> PNone \<and> PNone \<noteq> PNone \<and> is_str PNone \<and> is_str PNone)
         \<or> ((PNone = PNone \<or> PNone = PNone) \<and> is_str (PStr ''k''))" by simp
  from api_endpoint_trailing_slash[OF a l p s p' s c, of 0 "answering 200 JSONDecodeError"]
  obtain self where
    "init_config http_scheme 0 (PStr ''http://example.com'') PNone PNone (PStr ''k'') = Inr self"
    "init_config http_scheme 0 (PStr (''http://example.com'' @ ''/'')) PNone PNone (PStr ''k'') =
       Inr self"
    "api_endpoint self = ''http://example.com'' @ ''/'' @ ''yourls-api.php''"
    by blast
  then have "\<exists>self.
         init_config http_scheme 0 (PStr ''http://example.com'') PNone PNone (PStr ''k'') = Inr self
       \<and> init_config http_scheme 0 (PStr (''http://example.com'' @ ''/'')) PNone PNone (PStr ''k'') =
           Inr self
       \<and> api_endpoint self = ''http://example.com/yourls-api.php''"
    by (intro exI[of _ self]) simp
  with a l p p' show ?thesis by simp
qed

section \<open>Messages without a separator\<close>

text \<open>
  A failure message that is not a string, here the number 5: it is not \<^verbatim>\<open>"success"\<close> and
  holds no \<^verbatim>\<open>": "\<close>, and the extraction fails before any indexing, with
  \<^verbatim>\<open>AttributeError\<close>, because a number has no \<^verbatim>\<open>split\<close>.
\<close>

theorem expand_non_string_message_AttributeError:
  "expand (answering 200 (Parsed (PDict [(''message'', PInt 5), (''code'', PStr ''E'')])))
     demo_client (PStr ''abc'') = Inl AttributeError
   \<and> url_stats (answering 200 (Parsed (PDict [(''message'', PInt 5), (''code'', PStr ''E'')])))
     demo_client (PStr ''abc'') = Inl AttributeError
   \<and> AttributeError \<noteq> IndexError"
  by (simp add: expand_def url_stats_def answering_def)

text \<open>
  C9, amended. In \<^verbatim>\<open>expand\<close> and in \<^verbatim>\<open>url_stats\<close> (called with a non-empty url), for a
  parsed response that is an object with a message field: when the message is a string
  other than \<^verbatim>\<open>"success"\<close> that does not contain \<^verbatim>\<open>": "\<close>, the extraction
  \<^verbatim>\<open>split(": ")[1]\<close> raises \<^verbatim>\<open>IndexError\<close>; when the message is not a string, it raises
  \<^verbatim>\<open>AttributeError\<close>. Neither is one of the errors of the library.
\<close>

theorem split_detail_untyped_error:
  assumes "truthy url"
  shows "(json_body (srv (expand_request self url)) = Parsed (PDict d) \<and>
          map_of d ''message'' = Some (PStr m) \<and> m \<noteq> ''success'' \<and> \<not> sublist '': '' m \<longrightarrow>
            expand srv self url = Inl IndexError)
       \<and> (json_body (srv (expand_request self url)) = Parsed (PDict d) \<and>
          map_of d ''message'' = Some v \<and> \<not> is_str v \<longrightarrow>
            expand srv self url = Inl AttributeError)
       \<and> (json_body (srv (url_stats_request self url)) = Parsed (PDict d) \<and>
          map_of d ''message'' = Some (PStr m) \<and> m \<noteq> ''success'' \<and> \<not> sublist '': '' m \<longrightarrow>
            url_stats srv self url = Inl IndexError)
       \<and> (json_body (srv (url_stats_request self url)) = Parsed (PDict d) \<and>
          map_of d ''message'' = Some v \<and> \<not> is_str v \<longrightarrow>
            url_stats srv self url = Inl AttributeError)
       \<and> \<not> classified IndexError \<and> \<not> classified AttributeError"
proof -
  have ns: "\<not> is_str v \<Longrightarrow> v \<noteq> PStr ''success''" by (cases v) simp_all
  from assms ns show ?thesis
    by (auto simp: expand_def url_stats_def Let_def split_detail_no_sep split_detail_not_str
        simp del: split_detail.simps)
qed

text \<open>
  The statement at a server that answers only the action \<^verbatim>\<open>expand\<close> with a failure
  message without separator (and \<^verbatim>\<open>url-stats\<close> with a success), at one that does so for
  \<^verbatim>\<open>url-stats\<close> only, and at one whose message is \<^verbatim>\<open>None\<close>.
\<close>

theorem split_detail_untyped_error_witness:
  "truthy (PStr ''abc'')
   \<and> ''failed'' \<noteq> ''success'' \<and> \<not> sublist '': '' ''failed''
   \<and> expand
       (answering_action ''expand''
          \<lparr>status_code = 200,
           json_body = Parsed (PDict [(''message'', PStr ''failed''), (''code'', PInt 404)])\<rparr>
          \<lparr>status_code = 200,
           json_body = Parsed (PDict [(''message'', PStr ''success''), (''link'', PDict [])])\<rparr>)
       demo_client (PStr ''abc'') = Inl IndexError
   \<and> url_stats
       (answering_action ''url-stats''
          \<lparr>status_code = 200,
           json_body = Parsed (PDict [(''message'', PStr ''failed''), (''code'', PInt 404)])\<rparr>
          \<lparr>status_code = 200,
           json_body = Parsed (PDict [(''message'', PStr ''success''), (''longurl'', PStr ''u'')])\<rparr>)
       demo_client (PStr ''abc'') = Inl IndexError
   \<and> expand (answering 200 (Parsed (PDict [(''message'', PNone), (''code'', PInt 404)])))
       demo_client (PStr ''abc'') = Inl AttributeError
   \<and> url_stats (answering 200 (Parsed (PDict [(''message'', PNone), (''code'', PInt 404)])))
       demo_client (PStr ''abc'') = Inl AttributeError"
proof -
  let ?d = "[(''message'', PStr ''failed''), (''code'', PInt 404)]"
  let ?n = "[(''message'', PNone), (''code'', PInt 404)]"
  let ?e = "answering_action ''expand'' \<lparr>status_code = 200, json_body = Parsed (PDict ?d)\<rparr>
          \<lparr>status_code = 200,
           json_body = Parsed (PDict [(''message'', PStr ''success''), (''link'', PDict [])])\<rparr>"
  let ?u = "answering_action ''url-stats'' \<lparr>status_code = 200, json_body = Parsed (PDict ?d)\<rparr>
          \<lparr>status_code = 200,
           json_body = Parsed (PDict [(''message'', PStr ''success''), (''longurl'', PStr ''u'')])\<rparr>"
  have t: "truthy (PStr ''abc'')" by simp
  have n: "''failed'' \<noteq> ''success''" by simp
  have s: "\<not> sublist '': '' ''failed''" by (simp add: sublist_Cons_right)
  have qe: "json_body (?e (expand_request demo_client (PStr ''abc''))) = Parsed (PDict ?d)"
    by (simp add: answering_action_def expand_request_def dict_merge_def demo_client_def)
  have qu: "json_body (?u (url_stats_request demo_client (PStr ''abc''))) = Parsed (PDict ?d)"
    by (simp add: answering_action_def url_stats_request_def dict_merge_def demo_client_def)
  from split_detail_untyped_error[OF t, where srv = ?e and self = demo_client and d = ?d
      and m = "''failed''"] qe n s
  have e: "expand ?e demo_client (PStr ''abc'') = Inl IndexError" by simp
  from split_detail_untyped_error[OF t, where srv = ?u and self = demo_client and d = ?d
      and m = "''failed''"] qu n s
  have u: "url_stats ?u demo_client (PStr ''abc'') = Inl IndexError" by simp
  from split_detail_untyped_error[OF t, where srv = "answering 200 (Parsed (PDict ?n))"
      and self = demo_client and d = ?n and v = PNone]
  have a: "expand (answering 200 (Parsed (PDict ?n))) demo_client (PStr ''abc'') =
        Inl AttributeError
      \<and> url_stats (answering 200 (Parsed (PDict ?n))) demo_client (PStr ''abc'') =
        Inl AttributeError"
    by (simp add: answering_def)
  from t n s e u a show ?thesis by simp
qed

section \<open>Responses without the expected keys\<close>

text \<open>
  A failure response with the code \<^verbatim>\<open>"error:url"\<close> and no message: \<^verbatim>\<open>shorten\<close> never
  reads the message on that branch and raises \<^verbatim>\<open>Pyourls3URLAlreadyExistsError\<close>, one of
  the errors of the library.
\<close>

theorem shorten_missing_message_duplicate_code:
  "map_of [(''status'', PStr ''fail''), (''code'', PStr ''error:url'')] ''message'' = None
   \<and> shorten
       (answering 200
          (Parsed (PDict [(''status'', PStr ''fail''), (''code'', PStr ''error:url'')])))
       demo_client (PStr ''http://a'') PNone PNone
     = Inl (Pyourls3URLAlreadyExistsError (PStr ''http://a''))
   \<and> classified (Pyourls3URLAlreadyExistsError (PStr ''http://a''))"
  by (simp add: shorten_def answering_def)

text \<open>
  C10, amended. \<^verbatim>\<open>shorten\<close>, \<^verbatim>\<open>update\<close> (called with a non-empty url) and \<^verbatim>\<open>stats\<close>
  read fixed keys of the parsed JSON without checking their presence. For every response
  body that parses as JSON the method raises an untyped lookup error, none of the errors of
  the library, in each of these cases: the value is not an object (\<^verbatim>\<open>TypeError\<close>, all
  three methods); the \<^verbatim>\<open>"status"\<close> key is missing (\<^verbatim>\<open>KeyError\<close>, shorten and update);
  the status is not \<^verbatim>\<open>"success"\<close> and the \<^verbatim>\<open>"code"\<close> key is missing (\<^verbatim>\<open>KeyError\<close>,
  shorten and update); the status is not \<^verbatim>\<open>"success"\<close>, the code is present and is not
  \<^verbatim>\<open>"error:url"\<close>, and the \<^verbatim>\<open>"message"\<close> key is missing (\<^verbatim>\<open>KeyError\<close>, shorten and
  update); the \<^verbatim>\<open>"stats"\<close> key is missing (\<^verbatim>\<open>KeyError\<close>, stats, which performs no check
  of success or failure at all).
\<close>

theorem missing_key_untyped_error:
  assumes "truthy url"
  shows "(json_body (srv (shorten_request self url keyword title)) = Parsed j \<longrightarrow>
           ((\<forall>d. j \<noteq> PDict d) \<longrightarrow> shorten srv self url keyword title = Inl TypeError)
         \<and> (\<forall>d. j = PDict d \<and> map_of d ''status'' = None \<longrightarrow>
              shorten srv self url keyword title = Inl (KeyError ''status''))
         \<and> (\<forall>d st. j = PDict d \<and> map_of d ''status'' = Some st \<and> st \<noteq> PStr ''success'' \<and>
                map_of d ''code'' = None \<longrightarrow>
              shorten srv self url keyword title = Inl (KeyError ''code''))
         \<and> (\<forall>d st c. j = PDict d \<and> map_of d ''status'' = Some st \<and> st \<noteq> PStr ''success'' \<and>
                map_of d ''code'' = Some c \<and> c \<noteq> PStr ''error:url'' \<and>
                map_of d ''message'' = None \<longrightarrow>
              shorten srv self url keyword title = Inl (KeyError ''message'')))
       \<and> (json_body (srv (update_request self url keyword)) = Parsed j \<longrightarrow>
           ((\<forall>d. j \<noteq> PDict d) \<longrightarrow> update srv self url keyword = Inl TypeError)
         \<and> (\<forall>d. j = PDict d \<and> map_of d ''status'' = None \<longrightarrow>
              update srv self url keyword = Inl (KeyError ''status''))
         \<and> (\<forall>d st. j = PDict d \<and> map_of d ''status'' = Some st \<and> st \<noteq> PStr ''success'' \<and>
                map_of d ''code'' = None \<longrightarrow>
              update srv self url keyword = Inl (KeyError ''code''))
         \<and> (\<forall>d st c. j = PDict d \<and> map_of d ''status'' = Some st \<and> st \<noteq> PStr ''success'' \<and>
                map_of d ''code'' = Some c \<and> c \<noteq> PStr ''error:url'' \<and>
                map_of d ''message'' = None \<longrightarrow>
              update srv self url keyword = Inl (KeyError ''message'')))
       \<and> (json_body (srv (stats_request self)) = Parsed j \<longrightarrow>
           ((\<forall>d. j \<noteq> PDict d) \<longrightarrow> stats srv self = Inl TypeError)
         \<and> (\<forall>d. j = PDict d \<and> map_of d ''stats'' = None \<longrightarrow>
              stats srv self = Inl (KeyError ''stats'')))
       \<and> \<not> classified (KeyError k) \<and> \<not> classified TypeError"
  using assms
  by (simp add: shorten_def update_def stats_def Let_def getitem_not_dict)

theorem missing_key_untyped_error_witness:
  "truthy (PStr ''abc'')
   \<and> shorten (answering 200 (Parsed (PDict []))) demo_client (PStr ''abc'') PNone PNone =
       Inl (KeyError ''status'')
   \<and> update (answering 200 (Parsed (PDict [(''status'', PStr ''fail'')]))) demo_client
       (PStr ''abc'') PNone = Inl (KeyError ''code'')
   \<and> shorten (answering 200 (Parsed (PDict [(''status'', PStr ''fail''), (''code'', PStr ''E'')])))
       demo_client (PStr ''abc'') PNone PNone = Inl (KeyError ''message'')
   \<and> stats (answering 200 (Parsed (PDict []))) demo_client = Inl (KeyError ''stats'')
   \<and> shorten (answering 200 (Parsed (PList []))) demo_client (PStr ''abc'') PNone PNone =
       Inl TypeError
   \<and> update (answering 200 (Parsed PNone)) demo_client (PStr ''abc'') PNone = Inl TypeError
   \<and> stats (answering 200 (Parsed (PStr ''ok''))) demo_client = Inl TypeError"
proof -
  have t: "truthy (PStr ''abc'')" by simp
  from missing_key_untyped_error[OF t, where srv = "answering 200 (Parsed (PDict []))"
      and self = demo_client and keyword = PNone and title = PNone and j = "PDict []"]
  have a: "shorten (answering 200 (Parsed (PDict []))) demo_client (PStr ''abc'') PNone PNone =
        Inl (KeyError ''status'')
      \<and> stats (answering 200 (Parsed (PDict []))) demo_client = Inl (KeyError ''stats'')"
    by (simp add: answering_def)
  from missing_key_untyped_error[OF t,
      where srv = "answering 200 (Parsed (PDict [(''status'', PStr ''fail'')]))"
      and self = demo_client and keyword = PNone and title = PNone
      and j = "PDict [(''status'', PStr ''fail'')]"]
  have b: "update (answering 200 (Parsed (PDict [(''status'', PStr ''fail'')]))) demo_client
        (PStr ''abc'') PNone = Inl (KeyError ''code'')"
    by (simp add: answering_def)
  from missing_key_untyped_error[OF t,
      where srv = "answering 200 (Parsed (PDict [(''status'', PStr ''fail''), (''code'', PStr ''E'')]))"
      and self = demo_client and keyword = PNone and title = PNone
      and j = "PDict [(''status'', PStr ''fail''), (''code'', PStr ''E'')]"]
  have c: "shorten (answering 200 (Parsed (PDict [(''status'', PStr ''fail''), (''code'', PStr ''E'')])))
        demo_client (PStr ''abc'') PNone PNone = Inl (KeyError ''message'')"
    by (simp add: answering_def)
  from missing_key_untyped_error[OF t, where srv = "answering 200 (Parsed (PList []))"
      and self = demo_client and keyword = PNone and title = PNone and j = "PList []"]
  have d: "shorten (answering 200 (Parsed (PList []))) demo_client (PStr ''abc'') PNone PNone =
        Inl TypeError"
    by (simp add: answering_def)
  from missing_key_untyped_error[OF t, where srv = "answering 200 (Parsed PNone)"
      and self = demo_client and keyword = PNone and title = PNone and j = PNone]
  have e: "update (answering 200 (Parsed PNone)) demo_client (PStr ''abc'') PNone = Inl TypeError"
    by (simp add: answering_def)
  from missing_key_untyped_error[OF t, where srv = "answering 200 (Parsed (PStr ''ok''))"
      and self = demo_client and keyword = PNone and title = PNone and j = "PStr ''ok''"]
  have f: "stats (answering 200 (Parsed (PStr ''ok''))) demo_client = Inl TypeError"
    by (simp add: answering_def)
  from t a b c d e f show ?thesis by simp
qed

end
